theory Spec2Isabelle
  imports Main "HOL-Library.AList" "HOL-Library.Char_ord" "HOL-Library.List_Lexorder"
begin

section \<open>The world outside the program\<close>

text \<open>
  The launcher talks to the operating system through a handful of calls:
  \<^verbatim>\<open>os.path.exists\<close>, \<^verbatim>\<open>os.path.isdir\<close>, \<^verbatim>\<open>os.listdir\<close>, a socket bind on
  localhost, and reading and writing the one file
  \<^verbatim>\<open>~/.web_server_launcher_recent.json\<close>. Each of them is a field of the record
  \<open>world\<close>; the program's functions take a world and, where they write the file,
  return the new one. Nothing is assumed about how the fields relate to each other, so a
  theorem about every world covers case-insensitive file systems, dangling links and
  unreadable directories alike.
\<close>

datatype os_error = FileNotFoundError | NotADirectoryError | PermissionError

text \<open>
  A value as \<^verbatim>\<open>json.load\<close> returns it. A Python \<^verbatim>\<open>dict\<close> keeps its keys in insertion
  order, and the ranking of the recent projects depends on that order, so an object is
  a list of pairs.
\<close>

datatype json =
    JNull
  | JBool bool
  | JNum int
  | JStr string
  | JArr "json list"
  | JObj "(string \<times> json) list"

text \<open>
  What reading the history file gives: the file is not there
  (\<^verbatim>\<open>os.path.exists\<close> is false); \<^verbatim>\<open>open\<close> raises; \<^verbatim>\<open>json.load\<close> raises, because
  the text is not JSON or because a value in it cannot be built; or \<^verbatim>\<open>json.load\<close>
  returns a value.
\<close>

datatype file_cond = Missing | Unreadable | Malformed | Parsed json

text \<open>
  What writing the history file does: the text is written; \<^verbatim>\<open>open(..., 'w')\<close> raises
  and the file stays as it was; or \<^verbatim>\<open>open\<close> has truncated the file and
  \<^verbatim>\<open>json.dump\<close> raises before the closing brace is out, which leaves text that is
  not JSON.
\<close>

datatype write_outcome = Written | OpenFailed | DumpFailed

record world =
  path_exists :: "string \<Rightarrow> bool"
  path_isdir :: "string \<Rightarrow> bool"
  listdir :: "string \<Rightarrow> os_error + string list"
  port_free :: "int \<Rightarrow> bool"
  recent_file :: file_cond
  write_result :: write_outcome

section \<open>FileUtils\<close>

text \<open>
  \<^verbatim>\<open>
  def validate_folder(folder_path):
      if not os.path.exists(folder_path):
          return False, "Selected folder does not exist"
      if not os.path.isdir(folder_path):
          return False, "Selected path is not a directory"
      return True, "Folder is valid"
  \<close>
\<close>

definition validate_folder :: "world \<Rightarrow> string \<Rightarrow> bool \<times> string" where
  "validate_folder w folder_path =
     (if \<not> path_exists w folder_path then (False, ''Selected folder does not exist'')
      else if \<not> path_isdir w folder_path then (False, ''Selected path is not a directory'')
      else (True, ''Folder is valid''))"

text \<open>
  \<^verbatim>\<open>os.path.join(directory, name)\<close> for a relative \<open>name\<close>, as posixpath does it: the
  separator is added unless the directory is empty or already ends with one.
\<close>

definition path_join :: "string \<Rightarrow> string \<Rightarrow> string" where
  "path_join directory name =
     (if directory = [] then name
      else if last directory = CHR ''/'' then directory @ name
      else directory @ ''/'' @ name)"

text \<open>
  \<^verbatim>\<open>str.lower\<close> on the ASCII letters. No character outside ASCII lowers to one of
  \<^verbatim>\<open>. h t m l\<close>, so the suffix test below sees the same as Python's does.
\<close>

definition lower_char :: "char \<Rightarrow> char" where
  "lower_char c =
     (case map_of (zip ''ABCDEFGHIJKLMNOPQRSTUVWXYZ'' ''abcdefghijklmnopqrstuvwxyz'') c of
        Some l \<Rightarrow> l
      | None \<Rightarrow> c)"

definition lower :: "string \<Rightarrow> string" where
  "lower s = map lower_char s"

definition endswith :: "string \<Rightarrow> string \<Rightarrow> bool" where
  "endswith s suffix =
     (length suffix \<le> length s \<and> drop (length s - length suffix) s = suffix)"

definition is_html :: "string \<Rightarrow> bool" where
  "is_html item = (endswith (lower item) ''.html'' \<or> endswith (lower item) ''.htm'')"

definition index_files :: "string list" where
  "index_files = [''index.html'', ''index.htm'', ''default.html'', ''home.html'']"

text \<open>
  \<^verbatim>\<open>
  def find_index_file(directory):
      index_files = ['index.html', 'index.htm', 'default.html', 'home.html']
      for index_file in index_files:
          index_path = os.path.join(directory, index_file)
          if os.path.exists(index_path):
              return index_file
      try:
          html_files = []
          for item in os.listdir(directory):
              if item.lower().endswith(('.html', '.htm')):
                  html_files.append(item)
          if html_files:
              html_files.sort()
              return html_files[0]
      except Exception:
          pass
      return None
  \<close>
  The first loop is \<open>find\<close> over the priority list. \<^verbatim>\<open>list.sort\<close> on strings
  compares code points; on UTF-8 bytes that is the lexicographic order of
  \<open>char list\<close>.
\<close>

definition find_index_file :: "world \<Rightarrow> string \<Rightarrow> string option" where
  "find_index_file w directory =
     (case find (\<lambda>index_file. path_exists w (path_join directory index_file)) index_files of
        Some index_file \<Rightarrow> Some index_file
      | None \<Rightarrow>
          (case listdir w directory of
             Inl e \<Rightarrow> None
           | Inr items \<Rightarrow>
               (let html_files = filter is_html items
                in if html_files \<noteq> [] then Some (hd (sort html_files)) else None)))"

section \<open>ProjectManager\<close>

text \<open>
  \<^verbatim>\<open>self.recent_projects\<close> is a \<^verbatim>\<open>dict\<close> from folder path to usage count. It is an
  association list in insertion order: \<^verbatim>\<open>d[k] = v\<close> is \<open>AList.update\<close> (the value
  changes in place when the key is there, the pair goes to the end when it is not),
  \<^verbatim>\<open>k in d\<close> and \<^verbatim>\<open>d[k]\<close> are \<open>map_of\<close>, \<^verbatim>\<open>del d[k]\<close> is \<open>AList.delete\<close>
  and raises \<^verbatim>\<open>KeyError\<close> when the key is missing. A list stands for a \<^verbatim>\<open>dict\<close>
  when its keys are distinct.
\<close>

type_synonym projects = "(string \<times> int) list"

record project_manager =
  recent_projects :: projects

datatype py_error = KeyError

text \<open>
  \<^verbatim>\<open>json.dump\<close> of the mapping, read back by \<^verbatim>\<open>json.load\<close>: the object with the same
  keys in the same order and the counts as numbers.
\<close>

definition json_of :: "projects \<Rightarrow> json" where
  "json_of d = JObj (map (\<lambda>(k, c). (k, JNum c)) d)"

text \<open>
  \<^verbatim>\<open>
  def load_recent_projects(self):
      try:
          if os.path.exists(self.recent_projects_file):
              with open(self.recent_projects_file, 'r') as f:
                  return json.load(f)
      except Exception:
          pass
      return {}
  \<close>
\<close>

definition load_recent_projects :: "world \<Rightarrow> json" where
  "load_recent_projects w =
     (case recent_file w of
        Missing \<Rightarrow> JObj []
      | Unreadable \<Rightarrow> JObj []
      | Malformed \<Rightarrow> JObj []
      | Parsed v \<Rightarrow> v)"

text \<open>
  \<^verbatim>\<open>
  def save_recent_projects(self):
      try:
          with open(self.recent_projects_file, 'w') as f:
              json.dump(self.recent_projects, f, indent=2)
      except Exception:
          pass
  \<close>
\<close>

definition save_recent_projects :: "world \<Rightarrow> project_manager \<Rightarrow> world" where
  "save_recent_projects w pm =
     (case write_result w of
        Written \<Rightarrow> w\<lparr>recent_file := Parsed (json_of (recent_projects pm))\<rparr>
      | OpenFailed \<Rightarrow> w
      | DumpFailed \<Rightarrow> w\<lparr>recent_file := Malformed\<rparr>)"

text \<open>
  \<^verbatim>\<open>
  def add_recent_project(self, folder_path):
      if folder_path in self.recent_projects:
          self.recent_projects[folder_path] += 1
      else:
          self.recent_projects[folder_path] = 1
      self.save_recent_projects()
  \<close>
\<close>

definition add_recent_project ::
  "world \<Rightarrow> project_manager \<Rightarrow> string \<Rightarrow> project_manager \<times> world" where
  "add_recent_project w pm folder_path =
     (let pm' =
        (case map_of (recent_projects pm) folder_path of
           Some c \<Rightarrow> pm\<lparr>recent_projects := AList.update folder_path (c + 1) (recent_projects pm)\<rparr>
         | None \<Rightarrow> pm\<lparr>recent_projects := AList.update folder_path 1 (recent_projects pm)\<rparr>)
      in (pm', save_recent_projects w pm'))"

text \<open>
  The slice \<^verbatim>\<open>xs[:n]\<close>: the first \<open>n\<close> elements, and for a negative \<open>n\<close> all but the
  last \<open>-n\<close>.
\<close>

definition slice_to :: "int \<Rightarrow> 'a list \<Rightarrow> 'a list" where
  "slice_to n xs = (if 0 \<le> n then take (nat n) xs else take (length xs - nat (- n)) xs)"

text \<open>
  \<^verbatim>\<open>
  def get_sorted_projects(self, max_count=10):
      sorted_projects = sorted(self.recent_projects.items(), key=lambda x: x[1], reverse=True)
      valid_projects = []
      for folder_path, count in sorted_projects[:max_count]:
          if os.path.exists(folder_path):
              valid_projects.append((folder_path, count))
          else:
              del self.recent_projects[folder_path]
      if len(valid_projects) != len(sorted_projects[:max_count]):
          self.save_recent_projects()
      return valid_projects
  \<close>
  \<^verbatim>\<open>sorted\<close> is stable, with \<^verbatim>\<open>reverse=True\<close> too: entries of equal count keep the
  order of the \<^verbatim>\<open>dict\<close>. That is the insertion sort \<open>sort_key\<close> on the negated count.
  The loop is \<open>filter_projects\<close>, which carries \<^verbatim>\<open>valid_projects\<close> and the \<^verbatim>\<open>dict\<close>.
\<close>

fun filter_projects ::
  "world \<Rightarrow> projects \<Rightarrow> projects \<Rightarrow> projects \<Rightarrow> py_error + projects \<times> projects" where
  "filter_projects w [] valid_projects d = Inr (valid_projects, d)"
| "filter_projects w ((folder_path, count) # rest) valid_projects d =
     (if path_exists w folder_path
      then filter_projects w rest (valid_projects @ [(folder_path, count)]) d
      else (case map_of d folder_path of
              None \<Rightarrow> Inl KeyError
            | Some c \<Rightarrow> filter_projects w rest valid_projects (AList.delete folder_path d)))"

definition get_sorted_projects ::
  "world \<Rightarrow> project_manager \<Rightarrow> int \<Rightarrow> py_error + projects \<times> project_manager \<times> world" where
  "get_sorted_projects w pm max_count =
     (let sorted_projects = sort_key (\<lambda>x. - snd x) (recent_projects pm);
          sliced = slice_to max_count sorted_projects
      in case filter_projects w sliced [] (recent_projects pm) of
           Inl e \<Rightarrow> Inl e
         | Inr (valid_projects, d) \<Rightarrow>
             (let pm' = pm\<lparr>recent_projects := d\<rparr>
              in if length valid_projects \<noteq> length sliced
                 then Inr (valid_projects, pm', save_recent_projects w pm')
                 else Inr (valid_projects, pm', w)))"

text \<open>
  \<^verbatim>\<open>
  def clear_recent_projects(self):
      self.recent_projects = {}
      self.save_recent_projects()
  \<close>
\<close>

definition clear_recent_projects :: "world \<Rightarrow> project_manager \<Rightarrow> project_manager \<times> world" where
  "clear_recent_projects w pm =
     (let pm' = pm\<lparr>recent_projects := []\<rparr> in (pm', save_recent_projects w pm'))"

section \<open>WebServerLauncher\<close>

text \<open>
  The part of the main window that \<^verbatim>\<open>start_server\<close> reads and writes. A started
  \<^verbatim>\<open>ServerThread(directory, port)\<close> is the pair it was made from; the three
  booleans are the enabled flags of the buttons; \<open>status\<close> is the last call of
  \<^verbatim>\<open>update_status(message, status_type)\<close>. An f-string that prints the port keeps
  the port as a number.
\<close>

datatype message = Plain string | WithPort string int string

datatype message_box = MessageBox string message string

record launcher =
  server_thread :: "(string \<times> int) option"
  server_port :: int
  serve_directory :: string
  port_spinbox :: int
  start_btn :: bool
  stop_btn :: bool
  open_btn :: bool
  status :: "message \<times> string"

text \<open>
  \<^verbatim>\<open>
  def start_server(self):
      if not self.serve_directory:
          msg_box = self.create_styled_message_box("Warning", "Please select a folder to serve first.", "warning")
          msg_box.exec()
          return
      if not os.path.exists(self.serve_directory):
          msg_box = self.create_styled_message_box("Error", "Selected folder does not exist.", "error")
          msg_box.exec()
          return
      if not FileUtils.is_port_available(self.port_spinbox.value()):
          msg_box = self.create_styled_message_box("Error", f"Port {self.port_spinbox.value()} is already in use.", "error")
          msg_box.exec()
          return
      self.server_port = self.port_spinbox.value()
      self.server_thread = ServerThread(self.serve_directory, self.server_port)
      self.server_thread.status_update.connect(self.handle_server_status)
      self.server_thread.start()
      self.start_btn.setEnabled(False)
      self.stop_btn.setEnabled(True)
      self.open_btn.setEnabled(True)
      self.update_status(f"Starting server on port {self.server_port}...", "info")
  \<close>
  The result is the window after the call and the message box shown, if any.
\<close>

definition start_server :: "world \<Rightarrow> launcher \<Rightarrow> launcher \<times> message_box option" where
  "start_server w ui =
     (if serve_directory ui = [] then
        (ui, Some (MessageBox ''Warning'' (Plain ''Please select a folder to serve first.'') ''warning''))
      else if \<not> path_exists w (serve_directory ui) then
        (ui, Some (MessageBox ''Error'' (Plain ''Selected folder does not exist.'') ''error''))
      else if \<not> port_free w (port_spinbox ui) then
        (ui, Some (MessageBox ''Error''
                     (WithPort ''Port '' (port_spinbox ui) '' is already in use.'') ''error''))
      else
        (ui\<lparr>server_port := port_spinbox ui,
            server_thread := Some (serve_directory ui, port_spinbox ui),
            start_btn := False,
            stop_btn := True,
            open_btn := True,
            status := (WithPort ''Starting server on port '' (port_spinbox ui) ''...'', ''info'')\<rparr>,
         None))"

section \<open>Example inputs\<close>

text \<open>
  A directory \<^verbatim>\<open>/site\<close> that holds \<^verbatim>\<open>zzz.htm\<close> and \<^verbatim>\<open>about.html\<close> and nothing else,
  and a regular file \<^verbatim>\<open>/site/about.html\<close> in it.
\<close>

definition site_world :: world where
  "site_world =
     \<lparr>path_exists = (\<lambda>p. p = ''/site'' \<or> p = ''/site/about.html'' \<or> p = ''/site/zzz.htm''),
      path_isdir = (\<lambda>p. p = ''/site''),
      listdir = (\<lambda>p. if p = ''/site'' then Inr [''zzz.htm'', ''about.html'']
                     else if p = ''/site/about.html'' \<or> p = ''/site/zzz.htm''
                     then Inl NotADirectoryError else Inl FileNotFoundError),
      port_free = (\<lambda>port. True),
      recent_file = Missing,
      write_result = Written\<rparr>"

text \<open>
  A world in which only the folders \<^verbatim>\<open>/a\<close> and \<^verbatim>\<open>/b\<close> exist, with the history file
  in the given condition and writes to it ending the given way.
\<close>

definition ab_world :: "file_cond \<Rightarrow> write_outcome \<Rightarrow> world" where
  "ab_world fc wr =
     \<lparr>path_exists = (\<lambda>p. p = ''/a'' \<or> p = ''/b''),
      path_isdir = (\<lambda>p. p = ''/a'' \<or> p = ''/b''),
      listdir = (\<lambda>p. if p = ''/a'' \<or> p = ''/b'' then Inr [] else Inl FileNotFoundError),
      port_free = (\<lambda>port. True),
      recent_file = fc,
      write_result = wr\<rparr>"

text \<open>
  A main window with no server running, the port box at its initial 8000, the buttons as
  \<^verbatim>\<open>create_control_content\<close> leaves them, and the given folder selected.
\<close>

definition window_with :: "string \<Rightarrow> launcher" where
  "window_with folder =
     \<lparr>server_thread = None,
      server_port = 8000,
      serve_directory = folder,
      port_spinbox = 8000,
      start_btn = True,
      stop_btn = False,
      open_btn = False,
      status = (Plain ''Ready'', ''info'')\<rparr>"

section \<open>Facts about the model\<close>

subsection \<open>The history file\<close>

lemma save_keeps_exists [simp]: "path_exists (save_recent_projects w pm) = path_exists w"
  by (simp add: save_recent_projects_def split: write_outcome.split)

lemma save_keeps_write_result [simp]: "write_result (save_recent_projects w pm) = write_result w"
  by (simp add: save_recent_projects_def split: write_outcome.split)

lemma save_written:
  "write_result w = Written \<Longrightarrow>
   recent_file (save_recent_projects w pm) = Parsed (json_of (recent_projects pm))"
  by (simp add: save_recent_projects_def)

lemma load_recent_projects_failures:
  "recent_file w = Missing \<or> recent_file w = Unreadable \<or> recent_file w = Malformed \<Longrightarrow>
   load_recent_projects w = JObj []"
  by (auto simp: load_recent_projects_def)

subsection \<open>The loop of \<open>get_sorted_projects\<close>\<close>

text \<open>
  On a \<^verbatim>\<open>dict\<close> the loop never raises: the entries it walks have distinct keys that
  are all in the \<^verbatim>\<open>dict\<close>, so each \<^verbatim>\<open>del\<close> finds its key. It returns the walked
  entries whose path exists, and the \<^verbatim>\<open>dict\<close> without the walked entries whose path
  does not.
\<close>

lemma keys_delete: "fst ` set (AList.delete k d) = fst ` set d - {k}"
proof -
  have "set (map fst (AList.delete k d)) = set (removeAll k (map fst d))"
    by (simp only: delete_keys)
  then show ?thesis by simp
qed

lemma filter_projects_closed:
  "distinct (map fst items) \<Longrightarrow> fst ` set items \<subseteq> fst ` set d \<Longrightarrow>
   filter_projects w items valid d =
     Inr (valid @ filter (\<lambda>(p, c). path_exists w p) items,
          filter (\<lambda>(k, v). \<not> (k \<in> fst ` set items \<and> \<not> path_exists w k)) d)"
proof (induction items arbitrary: valid d)
  case Nil
  then show ?case by simp
next
  case (Cons x rest)
  obtain p c where x: "x = (p, c)" by (cases x)
  show ?case
  proof (cases "path_exists w p")
    case True
    have "filter (\<lambda>(k, v). \<not> (k \<in> fst ` set (x # rest) \<and> \<not> path_exists w k)) d
        = filter (\<lambda>(k, v). \<not> (k \<in> fst ` set rest \<and> \<not> path_exists w k)) d"
      using True x by (intro filter_cong) auto
    with True x Cons show ?thesis by simp
  next
    case False
    from Cons.prems x have pin: "p \<in> fst ` set d" by simp
    then obtain c' where c': "map_of d p = Some c'"
      by (metis domD dom_map_of_conv_image_fst)
    have "p \<notin> fst ` set rest" using Cons.prems x by simp
    moreover have "fst ` set rest \<subseteq> fst ` set d" using Cons.prems by auto
    ultimately have sub: "fst ` set rest \<subseteq> fst ` set (AList.delete p d)"
      unfolding keys_delete by blast
    have dr: "distinct (map fst rest)" using Cons.prems by simp
    have "filter (\<lambda>(k, v). \<not> (k \<in> fst ` set rest \<and> \<not> path_exists w k)) (AList.delete p d)
        = filter (\<lambda>(k, v). \<not> (k \<in> fst ` set (x # rest) \<and> \<not> path_exists w k)) d"
      using False x unfolding AList.delete_eq filter_filter
      by (intro filter_cong) auto
    with False x c' Cons.IH[OF dr sub] show ?thesis by simp
  qed
qed

lemma set_slice_to: "set (slice_to n xs) \<subseteq> set xs"
  by (auto simp: slice_to_def dest: in_set_takeD)

lemma distinct_keys_slice_to:
  "distinct (map fst xs) \<Longrightarrow> distinct (map fst (slice_to n xs))"
  by (simp add: slice_to_def take_map [symmetric] del: take_map)

lemma distinct_keys_sort_key:
  "distinct (map fst (sort_key f xs)) = distinct (map fst xs)"
  by (simp add: distinct_map)

lemma length_filter_neq: "(length (filter P xs) \<noteq> length xs) = (\<exists>x\<in>set xs. \<not> P x)"
proof -
  have "(length (filter P xs) = length xs) = (filter P xs = xs)"
    by (metis filter_id_conv length_filter_less less_irrefl)
  then show ?thesis by (simp add: filter_id_conv)
qed

lemma get_sorted_projects_closed:
  assumes "distinct (map fst (recent_projects pm))"
  shows "get_sorted_projects w pm n =
    (let sl = slice_to n (sort_key (\<lambda>x. - snd x) (recent_projects pm));
         valid = filter (\<lambda>(p, c). path_exists w p) sl;
         pm' = pm\<lparr>recent_projects :=
                 filter (\<lambda>(k, v). \<not> (k \<in> fst ` set sl \<and> \<not> path_exists w k)) (recent_projects pm)\<rparr>
     in Inr (valid, pm', if length valid \<noteq> length sl then save_recent_projects w pm' else w))"
proof -
  let ?sl = "slice_to n (sort_key (\<lambda>x. - snd x) (recent_projects pm))"
  have d: "distinct (map fst ?sl)"
    using assms by (simp add: distinct_keys_slice_to distinct_keys_sort_key)
  have "set ?sl \<subseteq> set (recent_projects pm)"
    using set_slice_to [of n "sort_key (\<lambda>x. - snd x) (recent_projects pm)"] by simp
  then have s: "fst ` set ?sl \<subseteq> fst ` set (recent_projects pm)" by blast
  show ?thesis
    by (simp add: get_sorted_projects_def Let_def filter_projects_closed [OF d s])
qed

lemma dropped_iff:
  assumes "set sl \<subseteq> set d"
  shows "(filter (\<lambda>(k, v). \<not> (k \<in> fst ` set sl \<and> \<not> path_exists w k)) d \<noteq> d)
         = (\<exists>x\<in>set sl. \<not> path_exists w (fst x))"
proof -
  have "(filter (\<lambda>(k, v). \<not> (k \<in> fst ` set sl \<and> \<not> path_exists w k)) d \<noteq> d)
        = (\<exists>x\<in>set d. fst x \<in> fst ` set sl \<and> \<not> path_exists w (fst x))"
    by (simp add: filter_id_conv case_prod_beta)
  also have "\<dots> = (\<exists>x\<in>set sl. \<not> path_exists w (fst x))"
    using assms by force
  finally show ?thesis .
qed

lemma key_in_top:
  assumes "distinct (map fst d)" and "set sl \<subseteq> set d" and "(k, v) \<in> set d"
  shows "(k \<in> fst ` set sl) = ((k, v) \<in> set sl)"
proof
  assume "k \<in> fst ` set sl"
  then obtain v' where t: "(k, v') \<in> set sl" by auto
  with assms(2) have "(k, v') \<in> set d" by blast
  with assms(1,3) have "v' = v" by (meson eq_key_imp_eq_value)
  with t show "(k, v) \<in> set sl" by simp
next
  assume "(k, v) \<in> set sl"
  then show "k \<in> fst ` set sl" by force
qed

lemma ranking_descending:
  "sorted_wrt (\<lambda>x y. snd y \<le> snd x) (sort_key (\<lambda>x. - snd x) (d :: projects))"
proof -
  have "sorted (map (\<lambda>x. - snd x) (sort_key (\<lambda>x. - snd x) d))"
    by (rule sorted_sort_key)
  then show ?thesis by (simp add: sorted_map)
qed

lemma slice_descending:
  "sorted_wrt (\<lambda>x y. snd y \<le> snd x) (slice_to n (sort_key (\<lambda>x. - snd x) (d :: projects)))"
  using ranking_descending [of d] by (simp add: slice_to_def sorted_wrt_take)

lemma take_length_take: "take (length (take k xs)) xs = take k xs"
  by (cases "k \<le> length xs") (simp_all add: min_def)

lemma slice_to_take: "slice_to n xs = take (length (slice_to n xs)) xs"
proof (cases "0 \<le> n")
  case True
  then show ?thesis by (simp only: slice_to_def if_True take_length_take)
next
  case False
  then show ?thesis by (simp only: slice_to_def if_False take_length_take)
qed

lemma slice_disjoint_rest:
  assumes "distinct r"
  shows "set (slice_to n r) \<inter> set (drop (length (slice_to n r)) r) = {}"
proof -
  let ?k = "length (slice_to n r)"
  have "distinct (take ?k r @ drop ?k r)" using assms by simp
  then have "set (take ?k r) \<inter> set (drop ?k r) = {}" by (simp only: distinct_append)
  then show ?thesis using slice_to_take [of n r] by simp
qed

lemma distinct_ranking:
  "distinct (map fst d) \<Longrightarrow> distinct (sort_key f d)"
  by (simp add: distinct_map)

lemma filter_keeps_count:
  assumes "distinct (map fst d)" and "map_of (filter P d) k = Some c'"
  shows "map_of d k = Some c'"
proof -
  from assms(2) have "(k, c') \<in> set (filter P d)" by (rule map_of_SomeD)
  then have "(k, c') \<in> set d" by simp
  with assms(1) show ?thesis by simp
qed

subsection \<open>Worked runs\<close>

lemma four_adds:
  assumes "path_exists w ''/a''" and "path_exists w ''/b''"
  shows "case add_recent_project w \<lparr>recent_projects = []\<rparr> ''/a'' of (pm1, w1) \<Rightarrow>
         case add_recent_project w1 pm1 ''/a'' of (pm2, w2) \<Rightarrow>
         case add_recent_project w2 pm2 ''/a'' of (pm3, w3) \<Rightarrow>
         case add_recent_project w3 pm3 ''/b'' of (pm4, w4) \<Rightarrow>
           recent_projects pm4 = [(''/a'', 3), (''/b'', 1)]
           \<and> get_sorted_projects w4 pm4 10 = Inr ([(''/a'', 3), (''/b'', 1)], pm4, w4)"
  using assms by (simp add: add_recent_project_def Let_def get_sorted_projects_def slice_to_def)

lemma start_server_missing_folder:
  "serve_directory ui \<noteq> [] \<Longrightarrow> \<not> path_exists w (serve_directory ui) \<Longrightarrow>
   start_server w ui
     = (ui, Some (MessageBox ''Error'' (Plain ''Selected folder does not exist.'') ''error''))"
  by (simp add: start_server_def)

subsection \<open>Searching and sorting\<close>

lemma find_index_Some:
  "i < length xs \<Longrightarrow> P (xs ! i) \<Longrightarrow> \<forall>j<i. \<not> P (xs ! j) \<Longrightarrow> find P xs = Some (xs ! i)"
proof (induction xs arbitrary: i)
  case Nil
  then show ?case by simp
next
  case (Cons x xs)
  show ?case
  proof (cases i)
    case 0
    with Cons.prems show ?thesis by simp
  next
    case (Suc k)
    with Cons.prems have "\<not> P x" by auto
    moreover have "find P xs = Some (xs ! k)"
      using Cons.prems Suc by (intro Cons.IH) auto
    ultimately show ?thesis using Suc by simp
  qed
qed

lemma find_None_all: "\<forall>x\<in>set xs. \<not> P x \<Longrightarrow> find P xs = None"
  by (simp add: find_None_iff)

lemma hd_sort_least:
  fixes xs :: "'a::linorder list"
  assumes "xs \<noteq> []"
  shows "hd (sort xs) \<in> set xs \<and> (\<forall>x\<in>set xs. hd (sort xs) \<le> x)"
proof -
  from assms have ne: "sort xs \<noteq> []" by (metis length_0_conv length_sort)
  then obtain m ms where ms: "sort xs = m # ms" by (cases "sort xs") auto
  have "sorted (m # ms)" using sorted_sort [of xs] by (simp only: ms)
  then have "\<forall>x\<in>set (m # ms). m \<le> x" by auto
  moreover have "set (m # ms) = set xs" using set_sort [of "\<lambda>x. x" xs] by (simp only: ms)
  ultimately show ?thesis using ms by auto
qed

lemma first_of_two:
  fixes a b :: "'a::linorder"
  assumes "set items = {a, b}" and "P a" and "P b" and "a \<le> b"
  shows "filter P items \<noteq> [] \<and> hd (sort (filter P items)) = a"
proof -
  from assms have s: "set (filter P items) = {a, b}" by auto
  have "a \<in> set (filter P items)" unfolding s by simp
  then have ne: "filter P items \<noteq> []" by (metis empty_iff empty_set)
  let ?m = "hd (sort (filter P items))"
  from hd_sort_least [OF ne] have "?m \<in> {a, b}" and "\<forall>x\<in>{a, b}. ?m \<le> x"
    unfolding s by blast+
  then have "?m = a \<or> ?m = b" and "?m \<le> a" by blast+
  with assms(4) have "?m = a" by (metis order_antisym)
  with ne show ?thesis by simp
qed

section \<open>Folder validation\<close>

text \<open>
  C8. \<open>validate_folder\<close> succeeds exactly when the path exists and is a directory. A
  path that does not exist fails with the reason "Selected folder does not exist", a
  path that exists and is not a directory (a regular file) fails with the reason
  "Selected path is not a directory", and the two reasons differ.
\<close>

theorem validate_folder_reasons:
  "(fst (validate_folder w p) \<longleftrightarrow> path_exists w p \<and> path_isdir w p)
   \<and> (\<not> path_exists w p \<longrightarrow>
        validate_folder w p = (False, ''Selected folder does not exist''))
   \<and> (path_exists w p \<and> \<not> path_isdir w p \<longrightarrow>
        validate_folder w p = (False, ''Selected path is not a directory''))
   \<and> ''Selected folder does not exist'' \<noteq> ''Selected path is not a directory''"
  by (simp add: validate_folder_def)

text \<open>
  Witness for C8: a path that is not there, the regular file \<^verbatim>\<open>/site/about.html\<close> and
  the directory \<^verbatim>\<open>/site\<close>.
\<close>

theorem validate_folder_reasons_witness:
  "\<not> path_exists site_world ''/nowhere''
   \<and> validate_folder site_world ''/nowhere'' = (False, ''Selected folder does not exist'')
   \<and> path_exists site_world ''/site/about.html'' \<and> \<not> path_isdir site_world ''/site/about.html''
   \<and> validate_folder site_world ''/site/about.html'' = (False, ''Selected path is not a directory'')
   \<and> validate_folder site_world ''/site'' = (True, ''Folder is valid'')"
  using validate_folder_reasons [of site_world "''/nowhere''"]
        validate_folder_reasons [of site_world "''/site/about.html''"]
        validate_folder_reasons [of site_world "''/site''"]
  by (simp add: site_world_def validate_folder_def)

section \<open>Choosing the index file\<close>

text \<open>
  C4. \<open>find_index_file\<close> goes through the fixed list \<^verbatim>\<open>index.html\<close>,
  \<^verbatim>\<open>index.htm\<close>, \<^verbatim>\<open>default.html\<close>, \<^verbatim>\<open>home.html\<close> in that order and returns the first
  name that exists in the directory. If none exists and the directory can be listed, it
  returns the least, in lexicographic order, of the listed names that end in
  \<^verbatim>\<open>.html\<close> or \<^verbatim>\<open>.htm\<close> in any letter case. If there is no such name, or the
  directory cannot be listed, it returns nothing. On a directory that holds only
  \<^verbatim>\<open>about.html\<close> and \<^verbatim>\<open>zzz.htm\<close> it returns \<^verbatim>\<open>about.html\<close>. The names are the
  entries \<^verbatim>\<open>os.listdir\<close> gives.
\<close>

theorem find_index_file_policy:
  "index_files = [''index.html'', ''index.htm'', ''default.html'', ''home.html'']
   \<and> (i < length index_files \<and> path_exists w (path_join d (index_files ! i))
        \<and> (\<forall>j<i. \<not> path_exists w (path_join d (index_files ! j)))
        \<longrightarrow> find_index_file w d = Some (index_files ! i))
   \<and> ((\<forall>f\<in>set index_files. \<not> path_exists w (path_join d f))
        \<and> listdir w d = Inr items \<and> (\<exists>x\<in>set items. is_html x)
        \<longrightarrow> (\<exists>m. find_index_file w d = Some m \<and> m \<in> set items \<and> is_html m
                 \<and> (\<forall>x\<in>set items. is_html x \<longrightarrow> m \<le> x)))
   \<and> ((\<forall>f\<in>set index_files. \<not> path_exists w (path_join d f))
        \<and> (listdir w d = Inl e \<or> listdir w d = Inr items \<and> (\<forall>x\<in>set items. \<not> is_html x))
        \<longrightarrow> find_index_file w d = None)
   \<and> ((\<forall>f\<in>set index_files. \<not> path_exists w (path_join d f))
        \<and> listdir w d = Inr items \<and> set items = {''about.html'', ''zzz.htm''}
        \<longrightarrow> find_index_file w d = Some ''about.html'')"
proof (intro conjI impI)
  show "index_files = [''index.html'', ''index.htm'', ''default.html'', ''home.html'']"
    by (simp add: index_files_def)
next
  assume "i < length index_files \<and> path_exists w (path_join d (index_files ! i))
        \<and> (\<forall>j<i. \<not> path_exists w (path_join d (index_files ! j)))"
  then have "find (\<lambda>f. path_exists w (path_join d f)) index_files = Some (index_files ! i)"
    by (intro find_index_Some) auto
  then show "find_index_file w d = Some (index_files ! i)"
    by (simp add: find_index_file_def)
next
  assume a: "(\<forall>f\<in>set index_files. \<not> path_exists w (path_join d f))
        \<and> listdir w d = Inr items \<and> (\<exists>x\<in>set items. is_html x)"
  then have none: "find (\<lambda>f. path_exists w (path_join d f)) index_files = None"
    by (intro find_None_all) auto
  from a have ne: "filter is_html items \<noteq> []" by (simp add: filter_empty_conv)
  from a none ne have r: "find_index_file w d = Some (hd (sort (filter is_html items)))"
    by (simp add: find_index_file_def)
  from hd_sort_least [OF ne] r
  show "\<exists>m. find_index_file w d = Some m \<and> m \<in> set items \<and> is_html m
                 \<and> (\<forall>x\<in>set items. is_html x \<longrightarrow> m \<le> x)"
    by auto
next
  assume a: "(\<forall>f\<in>set index_files. \<not> path_exists w (path_join d f))
        \<and> (listdir w d = Inl e \<or> listdir w d = Inr items \<and> (\<forall>x\<in>set items. \<not> is_html x))"
  then have none: "find (\<lambda>f. path_exists w (path_join d f)) index_files = None"
    by (intro find_None_all) auto
  from a have "listdir w d = Inl e \<or> listdir w d = Inr items \<and> filter is_html items = []"
    by (simp add: filter_empty_conv)
  with none show "find_index_file w d = None"
    by (auto simp: find_index_file_def)
next
  assume a: "(\<forall>f\<in>set index_files. \<not> path_exists w (path_join d f))
        \<and> listdir w d = Inr items \<and> set items = {''about.html'', ''zzz.htm''}"
  then have none: "find (\<lambda>f. path_exists w (path_join d f)) index_files = None"
    by (intro find_None_all) auto
  have h1: "is_html ''about.html''" and h2: "is_html ''zzz.htm''"
    by (simp_all add: is_html_def endswith_def lower_def lower_char_def)
  have le: "''about.html'' \<le> ''zzz.htm''" by simp
  from a have si: "set items = {''about.html'', ''zzz.htm''}" by (rule conjunct2 [THEN conjunct2])
  from a have li: "listdir w d = Inr items" by (rule conjunct2 [THEN conjunct1])
  have ne: "filter is_html items \<noteq> []"
    and hd: "hd (sort (filter is_html items)) = ''about.html''"
    using first_of_two [OF si h1 h2 le] by (rule conjunct1, rule conjunct2)
  from none li ne hd show "find_index_file w d = Some ''about.html''"
    by (simp add: find_index_file_def)
qed

text \<open>
  Witness for C4: the directory \<^verbatim>\<open>/site\<close> with \<^verbatim>\<open>zzz.htm\<close> and \<^verbatim>\<open>about.html\<close>;
  the same directory with \<^verbatim>\<open>index.htm\<close> and \<^verbatim>\<open>home.html\<close> present; and a
  directory with no HTML file.
\<close>

theorem find_index_file_policy_witness:
  "find_index_file site_world ''/site'' = Some ''about.html''
   \<and> listdir site_world ''/site'' = Inr [''zzz.htm'', ''about.html'']
   \<and> is_html ''zzz.htm'' \<and> is_html ''About.HTML'' \<and> ''about.html'' \<le> ''zzz.htm''
   \<and> find_index_file
         (site_world\<lparr>path_exists := (\<lambda>p. p = ''/site/index.htm'' \<or> p = ''/site/home.html'')\<rparr>)
         ''/site'' = Some ''index.htm''
   \<and> find_index_file (site_world\<lparr>listdir := (\<lambda>p. Inr [''notes.txt''])\<rparr>) ''/site'' = None"
proof -
  have none: "\<forall>f\<in>set index_files. \<not> path_exists site_world (path_join ''/site'' f)"
    by (simp add: site_world_def index_files_def path_join_def)
  have ls: "listdir site_world ''/site'' = Inr [''zzz.htm'', ''about.html'']"
    by (simp add: site_world_def)
  have st: "set [''zzz.htm'', ''about.html''] = {''about.html'', ''zzz.htm''}"
    by (simp add: insert_commute)
  have html: "is_html ''zzz.htm''" "is_html ''About.HTML''"
    by (simp_all add: is_html_def endswith_def lower_def lower_char_def)
  have le: "''about.html'' \<le> ''zzz.htm''" by simp
  have a: "find_index_file site_world ''/site'' = Some ''about.html''"
    using find_index_file_policy [where w = site_world and d = "''/site''"
        and items = "[''zzz.htm'', ''about.html'']" and i = 0 and e = FileNotFoundError]
      none ls st by blast
  let ?w1 = "site_world\<lparr>path_exists := (\<lambda>p. p = ''/site/index.htm'' \<or> p = ''/site/home.html'')\<rparr>"
  have h1: "1 < length index_files \<and> path_exists ?w1 (path_join ''/site'' (index_files ! 1))
        \<and> (\<forall>j<1. \<not> path_exists ?w1 (path_join ''/site'' (index_files ! j)))"
    by (simp add: index_files_def path_join_def)
  have "find_index_file ?w1 ''/site'' = Some (index_files ! 1)"
    using find_index_file_policy [where w = ?w1 and d = "''/site''"
        and items = "[]" and i = 1 and e = FileNotFoundError] h1 by blast
  then have b: "find_index_file ?w1 ''/site'' = Some ''index.htm''"
    by (simp add: index_files_def)
  let ?w2 = "site_world\<lparr>listdir := (\<lambda>p. Inr [''notes.txt''])\<rparr>"
  have h2: "(\<forall>f\<in>set index_files. \<not> path_exists ?w2 (path_join ''/site'' f))
        \<and> (listdir ?w2 ''/site'' = Inl FileNotFoundError
            \<or> listdir ?w2 ''/site'' = Inr [''notes.txt''] \<and> (\<forall>x\<in>set [''notes.txt'']. \<not> is_html x))"
    by (simp add: site_world_def index_files_def path_join_def is_html_def endswith_def
          lower_def lower_char_def)
  have c: "find_index_file ?w2 ''/site'' = None"
    using find_index_file_policy [where w = ?w2 and d = "''/site''"
        and items = "[''notes.txt'']" and i = 0 and e = FileNotFoundError] h2 by blast
  from a ls html le b c show ?thesis by (intro conjI)
qed

section \<open>Loading the history\<close>

text \<open>
  C5, the code at a history file whose content is JSON of the wrong shape. The claim
  asks for an empty mapping whenever the content is not a mapping from path strings to
  integer counts. \<open>load_recent_projects\<close> gives the empty mapping when the file is
  missing, cannot be opened or cannot be parsed (lemma \<open>load_recent_projects_failures\<close>),
  but it does not look at what \<^verbatim>\<open>json.load\<close> returns: a file that holds the text
  \<^verbatim>\<open>[1]\<close> loads as that list, and a file that holds \<^verbatim>\<open>{"/a": "x"}\<close> loads as a
  mapping whose count is a string. Neither is the empty mapping.
\<close>

theorem load_recent_projects_not_a_mapping:
  "load_recent_projects (ab_world (Parsed (JArr [JNum 1])) Written) = JArr [JNum 1]
   \<and> JArr [JNum 1] \<noteq> JObj []
   \<and> load_recent_projects (ab_world (Parsed (JObj [(''/a'', JStr ''x'')])) Written)
       = JObj [(''/a'', JStr ''x'')]
   \<and> JObj [(''/a'', JStr ''x'')] \<noteq> JObj []"
  by (simp add: load_recent_projects_def ab_world_def)

section \<open>Adding a project\<close>

text \<open>
  C6, counterexample. When \<^verbatim>\<open>open(..., 'w')\<close> raises, \<open>save_recent_projects\<close>
  swallows the error: after \<^verbatim>\<open>add_recent_project("/a")\<close> on an empty store the
  mapping holds \<^verbatim>\<open>/a\<close> with count 1 and the history file is still missing, so the
  mapping was not persisted.
\<close>

theorem add_recent_project_write_fails:
  "add_recent_project (ab_world Missing OpenFailed) \<lparr>recent_projects = []\<rparr> ''/a''
     = (\<lparr>recent_projects = [(''/a'', 1)]\<rparr>, ab_world Missing OpenFailed)
   \<and> recent_file (ab_world Missing OpenFailed) = Missing"
  by (simp add: add_recent_project_def save_recent_projects_def ab_world_def)

text \<open>
  C6, amended. \<open>add_recent_project\<close> sets the count of the path to its previous
  count plus one, or to 1 when the path was absent, leaves every other entry unchanged,
  and then calls \<open>save_recent_projects\<close> on the full mapping; when the write succeeds
  the history file holds the full mapping.
\<close>

theorem add_recent_project_counts:
  "case add_recent_project w pm p of (pm', w') \<Rightarrow>
     map_of (recent_projects pm') p
       = Some (case map_of (recent_projects pm) p of None \<Rightarrow> 1 | Some c \<Rightarrow> c + 1)
     \<and> (\<forall>q. q \<noteq> p \<longrightarrow> map_of (recent_projects pm') q = map_of (recent_projects pm) q)
     \<and> w' = save_recent_projects w pm'
     \<and> (write_result w = Written \<longrightarrow> recent_file w' = Parsed (json_of (recent_projects pm')))"
  by (simp add: add_recent_project_def Let_def update_conv' save_written split: option.split)

text \<open>
  Witness for the amended C6: \<^verbatim>\<open>/a\<close> at count 2 and \<^verbatim>\<open>/b\<close> at count 1, a write
  that succeeds, and \<^verbatim>\<open>/a\<close> added once more.
\<close>

theorem add_recent_project_counts_witness:
  "add_recent_project (ab_world Missing Written) \<lparr>recent_projects = [(''/a'', 2), (''/b'', 1)]\<rparr> ''/a''
     = (\<lparr>recent_projects = [(''/a'', 3), (''/b'', 1)]\<rparr>,
        ab_world (Parsed (JObj [(''/a'', JNum 3), (''/b'', JNum 1)])) Written)
   \<and> ''/b'' \<noteq> ''/a'' \<and> write_result (ab_world Missing Written) = Written"
  using add_recent_project_counts [where w = "ab_world Missing Written"
          and pm = "\<lparr>recent_projects = [(''/a'', 2), (''/b'', 1)]\<rparr>" and p = "''/a''"]
  by (simp add: add_recent_project_def save_recent_projects_def ab_world_def json_of_def)

section \<open>Clearing the history\<close>

text \<open>
  C7, counterexample. With a history file that holds \<^verbatim>\<open>/a\<close> at count 1 and a
  write that fails in \<^verbatim>\<open>open\<close>, \<open>clear_recent_projects\<close> empties the mapping and
  \<open>get_sorted_projects 10\<close> returns nothing, but the file still holds \<^verbatim>\<open>/a\<close>: it
  does not contain an empty mapping.
\<close>

theorem clear_recent_projects_write_fails:
  "clear_recent_projects (ab_world (Parsed (JObj [(''/a'', JNum 1)])) OpenFailed)
       \<lparr>recent_projects = [(''/a'', 1)]\<rparr>
     = (\<lparr>recent_projects = []\<rparr>, ab_world (Parsed (JObj [(''/a'', JNum 1)])) OpenFailed)
   \<and> get_sorted_projects (ab_world (Parsed (JObj [(''/a'', JNum 1)])) OpenFailed)
        \<lparr>recent_projects = []\<rparr> 10
     = Inr ([], \<lparr>recent_projects = []\<rparr>, ab_world (Parsed (JObj [(''/a'', JNum 1)])) OpenFailed)
   \<and> recent_file (ab_world (Parsed (JObj [(''/a'', JNum 1)])) OpenFailed)
       = Parsed (JObj [(''/a'', JNum 1)])
   \<and> JObj [(''/a'', JNum 1)] \<noteq> JObj []"
  by (simp add: clear_recent_projects_def save_recent_projects_def ab_world_def
        get_sorted_projects_def slice_to_def)

text \<open>
  C7, amended. After \<open>clear_recent_projects\<close> the mapping is empty and
  \<open>get_sorted_projects 10\<close> returns the empty sequence and changes nothing;
  \<open>clear_recent_projects\<close> calls \<open>save_recent_projects\<close> on the empty mapping, and
  when the write succeeds the history file holds an empty mapping.
\<close>

theorem clear_recent_projects_empties:
  "case clear_recent_projects w pm of (pm1, w1) \<Rightarrow>
     recent_projects pm1 = []
     \<and> get_sorted_projects w1 pm1 10 = Inr ([], pm1, w1)
     \<and> w1 = save_recent_projects w pm1
     \<and> (write_result w = Written \<longrightarrow> recent_file w1 = Parsed (JObj []))"
  by (simp add: clear_recent_projects_def Let_def get_sorted_projects_def slice_to_def
        save_written json_of_def)

text \<open>
  Witness for the amended C7: a store and a file that hold \<^verbatim>\<open>/a\<close>, and a write that
  succeeds.
\<close>

theorem clear_recent_projects_empties_witness:
  "clear_recent_projects (ab_world (Parsed (JObj [(''/a'', JNum 1)])) Written)
       \<lparr>recent_projects = [(''/a'', 1)]\<rparr>
     = (\<lparr>recent_projects = []\<rparr>, ab_world (Parsed (JObj [])) Written)
   \<and> write_result (ab_world (Parsed (JObj [(''/a'', JNum 1)])) Written) = Written
   \<and> get_sorted_projects (ab_world (Parsed (JObj [])) Written) \<lparr>recent_projects = []\<rparr> 10
     = Inr ([], \<lparr>recent_projects = []\<rparr>, ab_world (Parsed (JObj [])) Written)"
  using clear_recent_projects_empties [where w = "ab_world (Parsed (JObj [(''/a'', JNum 1)])) Written"
          and pm = "\<lparr>recent_projects = [(''/a'', 1)]\<rparr>"]
  by (simp add: clear_recent_projects_def save_recent_projects_def ab_world_def json_of_def
        get_sorted_projects_def slice_to_def)

section \<open>Ranked retrieval\<close>

text \<open>
  C1, counterexample. The loop only walks the first \<open>max_count\<close> entries of the
  ranking. With \<^verbatim>\<open>/a\<close> at count 2, \<^verbatim>\<open>/gone\<close> at count 1 and only \<^verbatim>\<open>/a\<close> on disk,
  \<open>get_sorted_projects 1\<close> never looks at \<^verbatim>\<open>/gone\<close>, which stays in the mapping
  although its path does not exist.
\<close>

theorem get_sorted_projects_keeps_low_ranked:
  "get_sorted_projects (ab_world Missing Written)
       \<lparr>recent_projects = [(''/a'', 2), (''/gone'', 1)]\<rparr> 1
     = Inr ([(''/a'', 2)], \<lparr>recent_projects = [(''/a'', 2), (''/gone'', 1)]\<rparr>,
            ab_world Missing Written)
   \<and> \<not> path_exists (ab_world Missing Written) ''/gone''"
  by (simp add: get_sorted_projects_def slice_to_def ab_world_def)

text \<open>
  C1, amended. On every store and for every \<open>n\<close>, \<open>get_sorted_projects n\<close> returns
  without error and drops from the mapping exactly the entries that are among the
  first \<open>n\<close> of the ranking by descending count and whose path does not exist;
  entries ranked after the first \<open>n\<close> stay, whether their path exists or not.
  \<open>save_recent_projects\<close> is called on the new mapping exactly when at least one entry
  was dropped, and otherwise the history file is not touched.
\<close>

theorem get_sorted_projects_drops:
  assumes "distinct (map fst (recent_projects pm))"
  shows "\<exists>valid pm' w'.
     get_sorted_projects w pm n = Inr (valid, pm', w')
     \<and> recent_projects pm'
         = filter (\<lambda>(p, c). \<not> ((p, c) \<in> set (slice_to n (sort_key (\<lambda>x. - snd x) (recent_projects pm)))
                              \<and> \<not> path_exists w p))
             (recent_projects pm)
     \<and> w' = (if recent_projects pm' \<noteq> recent_projects pm
              then save_recent_projects w pm' else w)"
proof -
  let ?d = "recent_projects pm"
  let ?sl = "slice_to n (sort_key (\<lambda>x. - snd x) ?d)"
  let ?d' = "filter (\<lambda>(k, v). \<not> (k \<in> fst ` set ?sl \<and> \<not> path_exists w k)) ?d"
  let ?valid = "filter (\<lambda>(p, c). path_exists w p) ?sl"
  have sub: "set ?sl \<subseteq> set ?d"
    using set_slice_to [of n "sort_key (\<lambda>x. - snd x) ?d"] by simp
  have eq: "?d' = filter (\<lambda>(p, c). \<not> ((p, c) \<in> set ?sl \<and> \<not> path_exists w p)) ?d"
    using key_in_top [OF assms sub] by (intro filter_cong) auto
  have "(length ?valid \<noteq> length ?sl) = (\<exists>x\<in>set ?sl. \<not> path_exists w (fst x))"
    by (simp add: length_filter_neq case_prod_beta)
  then have len: "(length ?valid \<noteq> length ?sl) = (?d' \<noteq> ?d)"
    by (simp only: dropped_iff [OF sub])
  have "get_sorted_projects w pm n =
      Inr (?valid, pm\<lparr>recent_projects := ?d'\<rparr>,
           if ?d' \<noteq> ?d then save_recent_projects w (pm\<lparr>recent_projects := ?d'\<rparr>) else w)"
    unfolding get_sorted_projects_closed [OF assms] Let_def len ..
  then show ?thesis using eq by simp
qed

text \<open>
  Witness for the amended C1: three entries, of which \<^verbatim>\<open>/gone\<close> ranks first and is not
  on disk, and \<^verbatim>\<open>/old\<close> ranks third and is not on disk either; with \<open>n = 2\<close> only
  \<^verbatim>\<open>/gone\<close> is dropped and the file is rewritten.
\<close>

theorem get_sorted_projects_drops_witness:
  "distinct (map fst [(''/a'', 2), (''/gone'', 5), (''/old'', 1 :: int)])
   \<and> get_sorted_projects (ab_world Missing Written)
        \<lparr>recent_projects = [(''/a'', 2), (''/gone'', 5), (''/old'', 1)]\<rparr> 2
     = Inr ([(''/a'', 2)], \<lparr>recent_projects = [(''/a'', 2), (''/old'', 1)]\<rparr>,
            ab_world (Parsed (JObj [(''/a'', JNum 2), (''/old'', JNum 1)])) Written)"
proof -
  have d: "distinct (map fst (recent_projects \<lparr>recent_projects = [(''/a'', 2), (''/gone'', 5), (''/old'', 1)]\<rparr>))"
    by simp
  show ?thesis
    using get_sorted_projects_drops [OF d, where w = "ab_world Missing Written" and n = 2]
    by (simp add: get_sorted_projects_def slice_to_def ab_world_def save_recent_projects_def
          json_of_def)
qed

text \<open>
  C3. Starting from an empty store, three calls of \<open>add_recent_project\<close> with
  \<^verbatim>\<open>/a\<close> and one with \<^verbatim>\<open>/b\<close>, both on disk, leave the mapping \<^verbatim>\<open>/a\<close> at 3 and
  \<^verbatim>\<open>/b\<close> at 1, and \<open>get_sorted_projects 10\<close> returns exactly
  \<^verbatim>\<open>[("/a", 3), ("/b", 1)]\<close> and changes nothing. In general, on every store,
  \<open>get_sorted_projects n\<close> returns without error the entries of the slice
  \<^verbatim>\<open>[:n]\<close> of the ranking by descending count whose path exists, in ranking order:
  the result is sorted by count descending, holds only entries of the store, and for a
  count \<open>n \<ge> 0\<close> has at most \<open>n\<close> entries, taken from the first \<open>n\<close> of the ranking.
\<close>

theorem get_sorted_projects_ranked:
  "(path_exists w ''/a'' \<and> path_exists w ''/b'' \<longrightarrow>
      (case add_recent_project w \<lparr>recent_projects = []\<rparr> ''/a'' of (pm1, w1) \<Rightarrow>
       case add_recent_project w1 pm1 ''/a'' of (pm2, w2) \<Rightarrow>
       case add_recent_project w2 pm2 ''/a'' of (pm3, w3) \<Rightarrow>
       case add_recent_project w3 pm3 ''/b'' of (pm4, w4) \<Rightarrow>
         recent_projects pm4 = [(''/a'', 3), (''/b'', 1)]
         \<and> get_sorted_projects w4 pm4 10 = Inr ([(''/a'', 3), (''/b'', 1)], pm4, w4)))
   \<and> (distinct (map fst (recent_projects pm)) \<longrightarrow>
        (\<exists>valid pm' w'.
           get_sorted_projects w pm n = Inr (valid, pm', w')
           \<and> valid = filter (\<lambda>(p, c). path_exists w p)
                        (slice_to n (sort_key (\<lambda>x. - snd x) (recent_projects pm)))
           \<and> sorted_wrt (\<lambda>x y. snd y \<le> snd x) valid
           \<and> set valid \<subseteq> set (recent_projects pm)
           \<and> (0 \<le> n \<longrightarrow> length valid \<le> nat n
                 \<and> valid = filter (\<lambda>(p, c). path_exists w p)
                              (take (nat n) (sort_key (\<lambda>x. - snd x) (recent_projects pm))))))"
proof (intro conjI impI)
  assume "path_exists w ''/a'' \<and> path_exists w ''/b''"
  then have "path_exists w ''/a''" and "path_exists w ''/b''" by simp_all
  then show "case add_recent_project w \<lparr>recent_projects = []\<rparr> ''/a'' of (pm1, w1) \<Rightarrow>
       case add_recent_project w1 pm1 ''/a'' of (pm2, w2) \<Rightarrow>
       case add_recent_project w2 pm2 ''/a'' of (pm3, w3) \<Rightarrow>
       case add_recent_project w3 pm3 ''/b'' of (pm4, w4) \<Rightarrow>
         recent_projects pm4 = [(''/a'', 3), (''/b'', 1)]
         \<and> get_sorted_projects w4 pm4 10 = Inr ([(''/a'', 3), (''/b'', 1)], pm4, w4)"
    by (rule four_adds)
next
  assume d: "distinct (map fst (recent_projects pm))"
  let ?sl = "slice_to n (sort_key (\<lambda>x. - snd x) (recent_projects pm))"
  let ?valid = "filter (\<lambda>(p, c). path_exists w p) ?sl"
  have sub: "set ?sl \<subseteq> set (recent_projects pm)"
    using set_slice_to [of n "sort_key (\<lambda>x. - snd x) (recent_projects pm)"] by simp
  have r: "\<exists>pm' w'. get_sorted_projects w pm n = Inr (?valid, pm', w')"
    by (simp add: get_sorted_projects_closed [OF d] Let_def)
  have s: "sorted_wrt (\<lambda>x y. snd y \<le> snd x) ?valid"
    by (intro sorted_wrt_filter slice_descending)
  have m: "set ?valid \<subseteq> set (recent_projects pm)"
    using sub by auto
  have l: "0 \<le> n \<longrightarrow> length ?valid \<le> nat n
            \<and> ?valid = filter (\<lambda>(p, c). path_exists w p)
                          (take (nat n) (sort_key (\<lambda>x. - snd x) (recent_projects pm)))"
  proof
    assume n: "0 \<le> n"
    then have e: "?sl = take (nat n) (sort_key (\<lambda>x. - snd x) (recent_projects pm))"
      by (simp add: slice_to_def)
    have "length ?valid \<le> length ?sl" by (rule length_filter_le)
    also have "\<dots> \<le> nat n" unfolding e by simp
    finally show "length ?valid \<le> nat n
            \<and> ?valid = filter (\<lambda>(p, c). path_exists w p)
                          (take (nat n) (sort_key (\<lambda>x. - snd x) (recent_projects pm)))"
      using e by simp
  qed
  from r s m l
  show "\<exists>valid pm' w'.
           get_sorted_projects w pm n = Inr (valid, pm', w')
           \<and> valid = filter (\<lambda>(p, c). path_exists w p)
                        (slice_to n (sort_key (\<lambda>x. - snd x) (recent_projects pm)))
           \<and> sorted_wrt (\<lambda>x y. snd y \<le> snd x) valid
           \<and> set valid \<subseteq> set (recent_projects pm)
           \<and> (0 \<le> n \<longrightarrow> length valid \<le> nat n
                 \<and> valid = filter (\<lambda>(p, c). path_exists w p)
                              (take (nat n) (sort_key (\<lambda>x. - snd x) (recent_projects pm))))"
    by blast
qed

text \<open>
  Witness for C3: \<^verbatim>\<open>/a\<close> and \<^verbatim>\<open>/b\<close> on disk; a store in which \<^verbatim>\<open>/gone\<close> ranks
  first, asked for three entries; and the store the four additions leave, asked for
  ten.
\<close>

theorem get_sorted_projects_ranked_witness:
  "path_exists (ab_world Missing Written) ''/a'' \<and> path_exists (ab_world Missing Written) ''/b''
   \<and> distinct (map fst [(''/b'', 1), (''/gone'', 7), (''/a'', 3 :: int)]) \<and> (0 :: int) \<le> 2
   \<and> get_sorted_projects (ab_world Missing Written)
        \<lparr>recent_projects = [(''/b'', 1), (''/gone'', 7), (''/a'', 3)]\<rparr> 3
      = Inr ([(''/a'', 3), (''/b'', 1)], \<lparr>recent_projects = [(''/b'', 1), (''/a'', 3)]\<rparr>,
             ab_world (Parsed (JObj [(''/b'', JNum 1), (''/a'', JNum 3)])) Written)
   \<and> get_sorted_projects (ab_world (Parsed (JObj [(''/a'', JNum 3), (''/b'', JNum 1)])) Written)
        \<lparr>recent_projects = [(''/a'', 3), (''/b'', 1)]\<rparr> 10
      = Inr ([(''/a'', 3), (''/b'', 1)], \<lparr>recent_projects = [(''/a'', 3), (''/b'', 1)]\<rparr>,
             ab_world (Parsed (JObj [(''/a'', JNum 3), (''/b'', JNum 1)])) Written)"
proof -
  have d: "distinct (map fst (recent_projects \<lparr>recent_projects = [(''/b'', 1), (''/gone'', 7), (''/a'', 3)]\<rparr>))"
    by simp
  show ?thesis
    using get_sorted_projects_ranked [where w = "ab_world Missing Written" and n = 3
        and pm = "\<lparr>recent_projects = [(''/b'', 1), (''/gone'', 7), (''/a'', 3)]\<rparr>"] d
    by (simp add: get_sorted_projects_def slice_to_def ab_world_def save_recent_projects_def
          json_of_def add_recent_project_def)
qed

text \<open>
  C10. \<open>get_sorted_projects n\<close> fills the result from the slice \<^verbatim>\<open>[:n]\<close> of the
  ranking and from nowhere else. On every store, each entry of the slice whose path
  does not exist is dropped from the mapping and left out of the result, which is then
  shorter than the slice, and no entry ranked after the slice is ever returned. So
  there is a store with at least \<open>n\<close> entries whose paths exist for which fewer than
  \<open>n\<close> entries come back: with \<^verbatim>\<open>/x\<close> at count 3 not on disk, \<^verbatim>\<open>/a\<close> at 2 and \<^verbatim>\<open>/b\<close>
  at 1 on disk, and \<open>n = 2\<close>, the slice is \<^verbatim>\<open>/x\<close>, \<^verbatim>\<open>/a\<close>; \<^verbatim>\<open>/x\<close> is dropped, the
  result is \<^verbatim>\<open>/a\<close> alone, and \<^verbatim>\<open>/b\<close>, the next entry of the ranking, which exists and
  stays in the mapping, is not returned in its place.
\<close>

theorem get_sorted_projects_not_refilled:
  "(distinct (map fst (recent_projects pm)) \<longrightarrow>
      (\<exists>valid pm' w'.
         get_sorted_projects w pm n = Inr (valid, pm', w')
         \<and> valid = filter (\<lambda>(p, c). path_exists w p)
                      (slice_to n (sort_key (\<lambda>x. - snd x) (recent_projects pm)))
         \<and> (\<forall>x\<in>set (slice_to n (sort_key (\<lambda>x. - snd x) (recent_projects pm))).
               \<not> path_exists w (fst x) \<longrightarrow>
                 x \<notin> set valid \<and> x \<notin> set (recent_projects pm')
                 \<and> length valid
                     < length (slice_to n (sort_key (\<lambda>x. - snd x) (recent_projects pm))))
         \<and> (\<forall>e\<in>set (drop (length (slice_to n (sort_key (\<lambda>x. - snd x) (recent_projects pm))))
                         (sort_key (\<lambda>x. - snd x) (recent_projects pm))).
               e \<notin> set valid)))
   \<and> (\<exists>w pm n valid pm' w' x e.
         distinct (map fst (recent_projects pm))
         \<and> 0 \<le> n
         \<and> n \<le> int (length (filter (\<lambda>(p, c). path_exists w p) (recent_projects pm)))
         \<and> get_sorted_projects w pm n = Inr (valid, pm', w')
         \<and> int (length valid) < n
         \<and> x \<in> set (take (nat n) (sort_key (\<lambda>x. - snd x) (recent_projects pm)))
         \<and> \<not> path_exists w (fst x)
         \<and> x \<notin> set valid \<and> x \<notin> set (recent_projects pm')
         \<and> nat n < length (sort_key (\<lambda>x. - snd x) (recent_projects pm))
         \<and> e = sort_key (\<lambda>x. - snd x) (recent_projects pm) ! nat n
         \<and> path_exists w (fst e)
         \<and> e \<in> set (recent_projects pm') \<and> e \<notin> set valid)"
proof (intro conjI impI)
  assume d: "distinct (map fst (recent_projects pm))"
  let ?r = "sort_key (\<lambda>x. - snd x) (recent_projects pm)"
  let ?sl = "slice_to n ?r"
  let ?valid = "filter (\<lambda>(p, c). path_exists w p) ?sl"
  let ?d' = "filter (\<lambda>(k, v). \<not> (k \<in> fst ` set ?sl \<and> \<not> path_exists w k)) (recent_projects pm)"
  have r: "\<exists>w'. get_sorted_projects w pm n = Inr (?valid, pm\<lparr>recent_projects := ?d'\<rparr>, w')"
    by (simp add: get_sorted_projects_closed [OF d] Let_def)
  have drop1: "\<forall>x\<in>set ?sl. \<not> path_exists w (fst x) \<longrightarrow>
                 x \<notin> set ?valid \<and> x \<notin> set ?d' \<and> length ?valid < length ?sl"
  proof (intro ballI impI)
    fix x assume x: "x \<in> set ?sl" and nx: "\<not> path_exists w (fst x)"
    have a: "x \<notin> set ?valid" using nx by (simp add: case_prod_beta)
    have "fst x \<in> fst ` set ?sl" using x by (rule imageI)
    then have b: "x \<notin> set ?d'" using nx by (simp add: case_prod_beta)
    have "\<not> (case x of (p, c) \<Rightarrow> path_exists w p)" using nx by (simp add: case_prod_beta)
    with x have c: "length ?valid < length ?sl" by (rule length_filter_less)
    from a b c show "x \<notin> set ?valid \<and> x \<notin> set ?d' \<and> length ?valid < length ?sl" by simp
  qed
  have rest: "\<forall>e\<in>set (drop (length ?sl) ?r). e \<notin> set ?valid"
  proof
    fix e assume e: "e \<in> set (drop (length ?sl) ?r)"
    have "set ?sl \<inter> set (drop (length ?sl) ?r) = {}"
      by (rule slice_disjoint_rest) (rule distinct_ranking [OF d])
    with e have "e \<notin> set ?sl" by blast
    then show "e \<notin> set ?valid" by simp
  qed
  from r obtain w' where
    g: "get_sorted_projects w pm n = Inr (?valid, pm\<lparr>recent_projects := ?d'\<rparr>, w')" by blast
  have "get_sorted_projects w pm n = Inr (?valid, pm\<lparr>recent_projects := ?d'\<rparr>, w')
        \<and> ?valid = filter (\<lambda>(p, c). path_exists w p) ?sl
        \<and> (\<forall>x\<in>set ?sl. \<not> path_exists w (fst x) \<longrightarrow>
               x \<notin> set ?valid \<and> x \<notin> set (recent_projects (pm\<lparr>recent_projects := ?d'\<rparr>))
               \<and> length ?valid < length ?sl)
        \<and> (\<forall>e\<in>set (drop (length ?sl) ?r). e \<notin> set ?valid)"
    using g drop1 rest by simp
  then show "\<exists>valid pm' w'.
         get_sorted_projects w pm n = Inr (valid, pm', w')
         \<and> valid = filter (\<lambda>(p, c). path_exists w p) ?sl
         \<and> (\<forall>x\<in>set ?sl. \<not> path_exists w (fst x) \<longrightarrow>
                 x \<notin> set valid \<and> x \<notin> set (recent_projects pm') \<and> length valid < length ?sl)
         \<and> (\<forall>e\<in>set (drop (length ?sl) ?r). e \<notin> set valid)"
    by blast
next
  let ?w = "ab_world Missing Written"
  let ?pm = "\<lparr>recent_projects = [(''/x'', 3), (''/a'', 2), (''/b'', 1)]\<rparr>"
  have so: "sort_key (\<lambda>x. - snd x) (recent_projects ?pm) = [(''/x'', 3), (''/a'', 2), (''/b'', 1)]"
    by simp
  have g: "get_sorted_projects ?w ?pm 2
          = Inr ([(''/a'', 2)], \<lparr>recent_projects = [(''/a'', 2), (''/b'', 1)]\<rparr>,
                 ab_world (Parsed (JObj [(''/a'', JNum 2), (''/b'', JNum 1)])) Written)"
    by (simp add: get_sorted_projects_def slice_to_def ab_world_def save_recent_projects_def
          json_of_def)
  have d: "distinct (map fst (recent_projects ?pm))" by simp
  have c: "(2 :: int) \<le> int (length (filter (\<lambda>(p, c). path_exists ?w p) (recent_projects ?pm)))"
    by (simp add: ab_world_def)
  have x: "(''/x'', 3) \<in> set (take (nat 2) (sort_key (\<lambda>x. - snd x) (recent_projects ?pm)))
      \<and> \<not> path_exists ?w (fst (''/x'', 3 :: int))
      \<and> (''/x'', 3) \<notin> set [(''/a'', 2 :: int)]
      \<and> (''/x'', 3) \<notin> set (recent_projects \<lparr>recent_projects = [(''/a'', 2), (''/b'', 1)]\<rparr>)"
    unfolding so by (simp add: ab_world_def)
  have e: "nat 2 < length (sort_key (\<lambda>x. - snd x) (recent_projects ?pm))
      \<and> (''/b'', 1) = sort_key (\<lambda>x. - snd x) (recent_projects ?pm) ! nat 2
      \<and> path_exists ?w (fst (''/b'', 1 :: int))
      \<and> (''/b'', 1) \<in> set (recent_projects \<lparr>recent_projects = [(''/a'', 2), (''/b'', 1)]\<rparr>)
      \<and> (''/b'', 1) \<notin> set [(''/a'', 2 :: int)]"
    unfolding so by (simp add: ab_world_def)
  from g d c x e
  show "\<exists>w pm n valid pm' w' x e.
         distinct (map fst (recent_projects pm))
         \<and> 0 \<le> n
         \<and> n \<le> int (length (filter (\<lambda>(p, c). path_exists w p) (recent_projects pm)))
         \<and> get_sorted_projects w pm n = Inr (valid, pm', w')
         \<and> int (length valid) < n
         \<and> x \<in> set (take (nat n) (sort_key (\<lambda>x. - snd x) (recent_projects pm)))
         \<and> \<not> path_exists w (fst x)
         \<and> x \<notin> set valid \<and> x \<notin> set (recent_projects pm')
         \<and> nat n < length (sort_key (\<lambda>x. - snd x) (recent_projects pm))
         \<and> e = sort_key (\<lambda>x. - snd x) (recent_projects pm) ! nat n
         \<and> path_exists w (fst e)
         \<and> e \<in> set (recent_projects pm') \<and> e \<notin> set valid"
    by (intro exI [of _ ?w] exI [of _ ?pm] exI [of _ 2] exI [of _ "[(''/a'', 2)]"]
          exI [of _ "\<lparr>recent_projects = [(''/a'', 2), (''/b'', 1)]\<rparr>"]
          exI [of _ "ab_world (Parsed (JObj [(''/a'', JNum 2), (''/b'', JNum 1)])) Written"]
          exI [of _ "(''/x'', 3)"] exI [of _ "(''/b'', 1)"]) simp
qed

text \<open>
  Witness for C10: the store of \<^verbatim>\<open>/x\<close>, \<^verbatim>\<open>/a\<close> and \<^verbatim>\<open>/b\<close> above, asked for two
  entries.
\<close>

theorem get_sorted_projects_not_refilled_witness:
  "distinct (map fst [(''/x'', 3), (''/a'', 2), (''/b'', 1 :: int)])
   \<and> get_sorted_projects (ab_world Missing Written)
        \<lparr>recent_projects = [(''/x'', 3), (''/a'', 2), (''/b'', 1)]\<rparr> 2
      = Inr ([(''/a'', 2)], \<lparr>recent_projects = [(''/a'', 2), (''/b'', 1)]\<rparr>,
             ab_world (Parsed (JObj [(''/a'', JNum 2), (''/b'', JNum 1)])) Written)
   \<and> slice_to 2 (sort_key (\<lambda>x. - snd x) [(''/x'', 3), (''/a'', 2), (''/b'', 1 :: int)])
      = [(''/x'', 3), (''/a'', 2)]
   \<and> \<not> path_exists (ab_world Missing Written) ''/x''
   \<and> drop 2 (sort_key (\<lambda>x. - snd x) [(''/x'', 3), (''/a'', 2), (''/b'', 1 :: int)])
      = [(''/b'', 1)]
   \<and> path_exists (ab_world Missing Written) ''/b''"
proof -
  have d: "distinct (map fst (recent_projects \<lparr>recent_projects = [(''/x'', 3), (''/a'', 2), (''/b'', 1)]\<rparr>))"
    by simp
  show ?thesis
    using get_sorted_projects_not_refilled [where w = "ab_world Missing Written" and n = 2
        and pm = "\<lparr>recent_projects = [(''/x'', 3), (''/a'', 2), (''/b'', 1)]\<rparr>"] d
    by (simp add: get_sorted_projects_def slice_to_def ab_world_def save_recent_projects_def
          json_of_def)
qed

section \<open>Invariants of the store\<close>

text \<open>
  C9. On a store with unique keys, each of \<open>add_recent_project\<close>,
  \<open>get_sorted_projects\<close> and \<open>clear_recent_projects\<close> leaves a store with unique
  keys. No count of an entry that remains goes down: \<open>add_recent_project\<close> only
  raises a count, \<open>get_sorted_projects\<close> keeps the count of every entry it keeps, and
  \<open>clear_recent_projects\<close> leaves no entry.
\<close>

theorem project_store_invariants:
  assumes "distinct (map fst (recent_projects pm))"
  shows "(case add_recent_project w pm p of (pm', w') \<Rightarrow>
            distinct (map fst (recent_projects pm'))
            \<and> (\<forall>k c c'. map_of (recent_projects pm) k = Some c
                          \<and> map_of (recent_projects pm') k = Some c' \<longrightarrow> c \<le> c'))
       \<and> (\<exists>valid pm' w'. get_sorted_projects w pm n = Inr (valid, pm', w')
            \<and> distinct (map fst (recent_projects pm'))
            \<and> (\<forall>k c c'. map_of (recent_projects pm) k = Some c
                          \<and> map_of (recent_projects pm') k = Some c' \<longrightarrow> c' = c))
       \<and> (case clear_recent_projects w pm of (pm', w') \<Rightarrow>
            distinct (map fst (recent_projects pm')) \<and> recent_projects pm' = [])"
proof (intro conjI)
  have di: "distinct (map fst (recent_projects (fst (add_recent_project w pm p))))"
    using assms by (simp add: add_recent_project_def Let_def distinct_update split: option.split)
  have mo: "\<forall>k c c'. map_of (recent_projects pm) k = Some c
                \<and> map_of (recent_projects (fst (add_recent_project w pm p))) k = Some c'
                \<longrightarrow> c \<le> c'"
    by (auto simp: add_recent_project_def Let_def update_conv' split: option.split if_splits)
  from di mo
  show "case add_recent_project w pm p of (pm', w') \<Rightarrow>
            distinct (map fst (recent_projects pm'))
            \<and> (\<forall>k c c'. map_of (recent_projects pm) k = Some c
                          \<and> map_of (recent_projects pm') k = Some c' \<longrightarrow> c \<le> c')"
    by (simp add: case_prod_beta)
next
  let ?sl = "slice_to n (sort_key (\<lambda>x. - snd x) (recent_projects pm))"
  let ?P = "\<lambda>(k, v). \<not> (k \<in> fst ` set ?sl \<and> \<not> path_exists w k)"
  let ?d' = "filter ?P (recent_projects pm)"
  have r: "\<exists>valid w'. get_sorted_projects w pm n = Inr (valid, pm\<lparr>recent_projects := ?d'\<rparr>, w')"
    by (simp add: get_sorted_projects_closed [OF assms] Let_def)
  have dd: "distinct (map fst ?d')" using assms by (rule distinct_map_filter)
  have keep: "\<forall>k c c'. map_of (recent_projects pm) k = Some c \<and> map_of ?d' k = Some c' \<longrightarrow> c' = c"
    using filter_keeps_count [OF assms, of ?P] by fastforce
  from r obtain valid w' where
    "get_sorted_projects w pm n = Inr (valid, pm\<lparr>recent_projects := ?d'\<rparr>, w')" by blast
  with dd keep
  show "\<exists>valid pm' w'. get_sorted_projects w pm n = Inr (valid, pm', w')
            \<and> distinct (map fst (recent_projects pm'))
            \<and> (\<forall>k c c'. map_of (recent_projects pm) k = Some c
                          \<and> map_of (recent_projects pm') k = Some c' \<longrightarrow> c' = c)"
    by (intro exI [of _ valid] exI [of _ "pm\<lparr>recent_projects := ?d'\<rparr>"] exI [of _ w']) simp
next
  show "case clear_recent_projects w pm of (pm', w') \<Rightarrow>
            distinct (map fst (recent_projects pm')) \<and> recent_projects pm' = []"
    by (simp add: clear_recent_projects_def Let_def)
qed

text \<open>
  Witness for C9: a store with \<^verbatim>\<open>/a\<close> at 2 and \<^verbatim>\<open>/gone\<close> at 5, where only \<^verbatim>\<open>/a\<close>
  is on disk.
\<close>

theorem project_store_invariants_witness:
  "distinct (map fst [(''/a'', 2), (''/gone'', 5 :: int)])
   \<and> recent_projects (fst (add_recent_project (ab_world Missing Written)
        \<lparr>recent_projects = [(''/a'', 2), (''/gone'', 5)]\<rparr> ''/a''))
      = [(''/a'', 3), (''/gone'', 5)]
   \<and> (2 :: int) \<le> 3
   \<and> get_sorted_projects (ab_world Missing Written)
        \<lparr>recent_projects = [(''/a'', 2), (''/gone'', 5)]\<rparr> 10
      = Inr ([(''/a'', 2)], \<lparr>recent_projects = [(''/a'', 2)]\<rparr>,
             ab_world (Parsed (JObj [(''/a'', JNum 2)])) Written)
   \<and> recent_projects (fst (clear_recent_projects (ab_world Missing Written)
        \<lparr>recent_projects = [(''/a'', 2), (''/gone'', 5)]\<rparr>)) = []"
proof -
  have d: "distinct (map fst (recent_projects \<lparr>recent_projects = [(''/a'', 2), (''/gone'', 5)]\<rparr>))"
    by simp
  show ?thesis
    using project_store_invariants [OF d, where w = "ab_world Missing Written" and n = 10
        and p = "''/a''"]
    by (simp add: get_sorted_projects_def slice_to_def ab_world_def save_recent_projects_def
          json_of_def add_recent_project_def clear_recent_projects_def)
qed

section \<open>Starting the server\<close>

text \<open>
  C2, the code at a path that is a regular file. \<open>start_server\<close> tests
  \<^verbatim>\<open>os.path.exists\<close> only. With \<^verbatim>\<open>/site/about.html\<close> selected, a regular file that
  \<open>validate_folder\<close> rejects as not a directory, and the port free, it shows no
  message box, creates and starts the server thread, disables the start button and
  enables the stop and open buttons: the window has changed and no error was
  reported.
\<close>

theorem start_server_regular_file:
  "path_exists site_world ''/site/about.html''
   \<and> \<not> path_isdir site_world ''/site/about.html''
   \<and> validate_folder site_world ''/site/about.html'' = (False, ''Selected path is not a directory'')
   \<and> start_server site_world (window_with ''/site/about.html'')
      = (\<lparr>server_thread = Some (''/site/about.html'', 8000),
          server_port = 8000,
          serve_directory = ''/site/about.html'',
          port_spinbox = 8000,
          start_btn = False,
          stop_btn = True,
          open_btn = True,
          status = (WithPort ''Starting server on port '' 8000 ''...'', ''info'')\<rparr>,
         None)"
  by (simp add: start_server_def site_world_def window_with_def validate_folder_def)

end
